theory Spec2Isabelle
  imports Main "HOL-Library.Char_ord" "HOL-Library.List_Lexorder"
begin

section \<open>RepoInfo.cc: the build metadata record and the program printing it\<close>

subsection \<open>The struct and its static members\<close>

text \<open>
  \<^verbatim>\<open>struct RepoInfo\<close> (lines 5-21) declares eight \<^verbatim>\<open>static const std::string\<close>
  members and nothing else. The record below has one field per declared member, in the
  order of the declarations.
\<close>

record RepoInfo =
  hostName :: string
  hostUser :: string
  hostOsNV :: string
  buildUser :: string
  buildTime :: string
  modifyTime :: string
  repoHash :: string
  repoUrl :: string

text \<open>
  The out-of-class definitions of lines 23-33, each of the form
  \<^verbatim>\<open>const std::string RepoInfo::<member> = "<literal>";\<close>.
\<close>

definition RepoInfo_init :: RepoInfo where
  "RepoInfo_init =
     \<lparr> hostName = ''host name'',
       hostUser = ''user name'',
       hostOsNV = ''Ubuntu 14.04'',
       buildUser = ''user-name <email@demo.com>'',
       buildTime = ''2018-01-30 10:20:30 +0845'',
       modifyTime = ''2019-01-30 20:50:59 +8123'',
       repoHash = ''615'',
       repoUrl = ''svn://addr/app/trunk/mta'' \<rparr>"

text \<open>
  The member declarations of lines 7-20 as data: the identifier of every declared member
  together with the member it names, in declaration order.
\<close>

definition RepoInfo_members :: "(string \<times> (RepoInfo \<Rightarrow> string)) list" where
  "RepoInfo_members =
     [ (''hostName'', hostName),
       (''hostUser'', hostUser),
       (''hostOsNV'', hostOsNV),
       (''buildUser'', buildUser),
       (''buildTime'', buildTime),
       (''modifyTime'', modifyTime),
       (''repoHash'', repoHash),
       (''repoUrl'', repoUrl) ]"

text \<open>
  The constants the translation unit defines: the qualifying scope, the identifier and
  the initialiser of each definition of lines 23-33.
\<close>

definition RepoInfo_constants :: "(string \<times> string \<times> string) list" where
  "RepoInfo_constants =
     map (\<lambda>(name, member). (''RepoInfo'', name, member RepoInfo_init)) RepoInfo_members"

subsection \<open>The output stream\<close>

text \<open>
  \<^verbatim>\<open>std::cout\<close> is the sequence of characters inserted so far, together with the
  number of them that a flush has handed to the device.
\<close>

record ostream =
  chars :: string
  flushed :: nat

definition newline :: char where
  "newline = CHR 0x0A"

text \<open>\<^verbatim>\<open>os << s\<close> for a \<^verbatim>\<open>std::string\<close>: the characters of \<open>s\<close> are appended.\<close>

definition put_string :: "ostream \<Rightarrow> string \<Rightarrow> ostream" where
  "put_string os s = os\<lparr>chars := chars os @ s\<rparr>"

definition flush :: "ostream \<Rightarrow> ostream" where
  "flush os = os\<lparr>flushed := length (chars os)\<rparr>"

text \<open>\<^verbatim>\<open>os << std::endl\<close>: a newline character is appended, then the stream is flushed.\<close>

definition endl :: "ostream \<Rightarrow> ostream" where
  "endl os = flush (os\<lparr>chars := chars os @ [newline]\<rparr>)"

subsection \<open>The program\<close>

text \<open>
  The objects with static storage duration that the program touches: the members of
  \<^verbatim>\<open>RepoInfo\<close> and \<^verbatim>\<open>std::cout\<close>.
\<close>

record globals =
  repo_info :: RepoInfo
  cout :: ostream

text \<open>
  \<^verbatim>\<open>int main(void)\<close> (lines 35-47): eight statements
  \<^verbatim>\<open>std::cout << RepoInfo::<member> << std::endl;\<close> followed by \<^verbatim>\<open>return 0;\<close>.
  The result is the state at return and the returned value.
\<close>

definition main :: "globals \<Rightarrow> globals \<times> int" where
  "main g =
     (let r = repo_info g;
          os = cout g;
          os = endl (put_string os (hostName r));
          os = endl (put_string os (hostUser r));
          os = endl (put_string os (hostOsNV r));
          os = endl (put_string os (buildUser r));
          os = endl (put_string os (buildTime r));
          os = endl (put_string os (modifyTime r));
          os = endl (put_string os (repoHash r));
          os = endl (put_string os (repoUrl r))
      in (g\<lparr>cout := os\<rparr>, 0))"

text \<open>
  A run of the program: the static members are initialised from their definitions, then
  \<open>main\<close> is entered with the stream as the environment left it.
\<close>

definition static_init :: "ostream \<Rightarrow> globals" where
  "static_init os = \<lparr> repo_info = RepoInfo_init, cout = os \<rparr>"

definition run :: "ostream \<Rightarrow> globals \<times> int" where
  "run os = main (static_init os)"

text \<open>The lines of a text: the pieces between newline characters, each ended by one.\<close>

fun split_lines :: "string \<Rightarrow> string \<Rightarrow> string list" where
  "split_lines acc [] = (if acc = [] then [] else [acc])"
| "split_lines acc (c # cs) =
     (if c = newline then acc # split_lines [] cs else split_lines (acc @ [c]) cs)"

definition lines_of :: "string \<Rightarrow> string list" where
  "lines_of s = split_lines [] s"

subsection \<open>The program on an output device\<close>

text \<open>
  \<^verbatim>\<open>std::endl\<close> flushes: the characters inserted since the last flush are handed to the
  device behind the standard output by a write. What becomes of the program then lies with
  the device: it takes the characters; or it refuses them with an error, and the stream
  sets its \<^verbatim>\<open>badbit\<close>; or it answers with a fatal signal (\<^verbatim>\<open>SIGPIPE\<close>, on a pipe whose
  reader is gone), and the process is killed inside the write; or it never answers, and
  the process stays blocked in the write.
\<close>

datatype write_result = Written | Failed | Killed | Blocked

text \<open>A device is what it answers to the first, the second, ... write of the process.\<close>

type_synonym device = "nat \<Rightarrow> write_result"

text \<open>Why a statement did not complete: the process was killed, or it hangs.\<close>

datatype stop = Signalled | Hung

text \<open>
  The process: its objects of static storage duration, the \<^verbatim>\<open>badbit\<close> of
  \<^verbatim>\<open>std::cout\<close>, and the number of writes it has issued.
\<close>

record process =
  mem :: globals
  badbit :: bool
  writes :: nat

text \<open>\<^verbatim>\<open>std::cout << s\<close>: on a stream that is not good nothing is inserted.\<close>

definition put_string_on :: "process \<Rightarrow> string \<Rightarrow> process" where
  "put_string_on p s =
     (if badbit p then p
      else p\<lparr>mem := (mem p)\<lparr>cout := put_string (cout (mem p)) s\<rparr>\<rparr>)"

text \<open>
  \<^verbatim>\<open>std::cout << std::endl\<close>: on a stream that is not good nothing happens. Otherwise the
  newline is inserted and the stream is flushed by one write, with the four outcomes above.
\<close>

definition endl_on :: "device \<Rightarrow> process \<Rightarrow> stop + process" where
  "endl_on dev p =
     (if badbit p then Inr p
      else
        (let os = (cout (mem p))\<lparr>chars := chars (cout (mem p)) @ [newline]\<rparr>
         in case dev (writes p) of
              Written \<Rightarrow>
                Inr (p\<lparr>mem := (mem p)\<lparr>cout := flush os\<rparr>, writes := Suc (writes p)\<rparr>)
            | Failed \<Rightarrow>
                Inr (p\<lparr>mem := (mem p)\<lparr>cout := os\<rparr>, badbit := True,
                      writes := Suc (writes p)\<rparr>)
            | Killed \<Rightarrow> Inl Signalled
            | Blocked \<Rightarrow> Inl Hung))"

text \<open>One statement \<^verbatim>\<open>std::cout << s << std::endl;\<close>.\<close>

definition print_line :: "device \<Rightarrow> process \<Rightarrow> string \<Rightarrow> stop + process" where
  "print_line dev p s = endl_on dev (put_string_on p s)"

text \<open>Sequencing: the next statement runs when the one before it has completed.\<close>

definition and_then :: "stop + 'a \<Rightarrow> ('a \<Rightarrow> stop + 'b) \<Rightarrow> stop + 'b" where
  "and_then m f = (case m of Inl st \<Rightarrow> Inl st | Inr x \<Rightarrow> f x)"

text \<open>
  \<^verbatim>\<open>int main(void)\<close> (lines 35-47) on a device: the eight statements in sequence, then
  \<^verbatim>\<open>return 0;\<close>. The result is either why \<open>main\<close> did not return, or the state at return
  and the returned value.
\<close>

definition main_on :: "device \<Rightarrow> process \<Rightarrow> stop + process \<times> int" where
  "main_on dev p0 =
     and_then (print_line dev p0 (hostName (repo_info (mem p0)))) (\<lambda>p1.
     and_then (print_line dev p1 (hostUser (repo_info (mem p1)))) (\<lambda>p2.
     and_then (print_line dev p2 (hostOsNV (repo_info (mem p2)))) (\<lambda>p3.
     and_then (print_line dev p3 (buildUser (repo_info (mem p3)))) (\<lambda>p4.
     and_then (print_line dev p4 (buildTime (repo_info (mem p4)))) (\<lambda>p5.
     and_then (print_line dev p5 (modifyTime (repo_info (mem p5)))) (\<lambda>p6.
     and_then (print_line dev p6 (repoHash (repo_info (mem p6)))) (\<lambda>p7.
     and_then (print_line dev p7 (repoUrl (repo_info (mem p7)))) (\<lambda>p8.
     Inr (p8, 0)))))))))"

text \<open>The eight statements as one loop over the texts they print.\<close>

fun print_lines :: "device \<Rightarrow> process \<Rightarrow> (RepoInfo \<Rightarrow> string) list \<Rightarrow> stop + process" where
  "print_lines dev p [] = Inr p"
| "print_lines dev p (member # members) =
     and_then (print_line dev p (member (repo_info (mem p)))) (\<lambda>q. print_lines dev q members)"

text \<open>
  A run on a device: after static initialisation \<open>main\<close> is entered with the stream good
  and no write issued yet.
\<close>

definition boot :: "ostream \<Rightarrow> process" where
  "boot os = \<lparr> mem = static_init os, badbit = False, writes = 0 \<rparr>"

definition run_on :: "device \<Rightarrow> ostream \<Rightarrow> stop + process \<times> int" where
  "run_on dev os = main_on dev (boot os)"

text \<open>What the device answers to the next \<open>n\<close> writes of a process.\<close>

definition answers :: "device \<Rightarrow> process \<Rightarrow> nat \<Rightarrow> write_result list" where
  "answers dev p n = map dev [writes p ..< writes p + n]"

text \<open>
  Three devices: a terminal or file that takes every write; a pipe whose reader is gone,
  with \<^verbatim>\<open>SIGPIPE\<close> at its default action; and a device on which every write fails with an
  error (a closed descriptor, a full disk).
\<close>

definition accepting_device :: device where
  "accepting_device = (\<lambda>k. Written)"

definition closed_pipe :: device where
  "closed_pipe = (\<lambda>k. Killed)"

definition failing_device :: device where
  "failing_device = (\<lambda>k. Failed)"


section \<open>The timestamp format\<close>

text \<open>
  The two timestamp members hold text of the form \<^verbatim>\<open>YYYY-MM-DD HH:MM:SS +HHMM\<close>.
  The definitions of this section give that format a meaning, so that the literals of
  lines 28 and 30 can be checked against it.
\<close>

definition is_digit :: "char \<Rightarrow> bool" where
  "is_digit c = (CHR ''0'' \<le> c \<and> c \<le> CHR ''9'')"

definition is_sign :: "char \<Rightarrow> bool" where
  "is_sign c = (c = CHR ''+'' \<or> c = CHR ''-'')"

definition digit_val :: "char \<Rightarrow> nat" where
  "digit_val c = of_char c - of_char CHR ''0''"

definition decimal :: "string \<Rightarrow> nat" where
  "decimal s = foldl (\<lambda>n c. 10 * n + digit_val c) 0 s"

text \<open>
  A text matches a pattern when it has the pattern's length and, position by position,
  a decimal digit where the pattern has one of the letters Y, M, D, H, S, a sign where the
  pattern has \<open>+\<close>, and the pattern's own character anywhere else.
\<close>

fun matches_pattern :: "string \<Rightarrow> string \<Rightarrow> bool" where
  "matches_pattern [] [] = True"
| "matches_pattern (p # ps) (c # cs) =
     ((if p \<in> set ''YMDHS'' then is_digit c
       else if p = CHR ''+'' then is_sign c
       else c = p) \<and> matches_pattern ps cs)"
| "matches_pattern [] (c # cs) = False"
| "matches_pattern (p # ps) [] = False"

definition timestamp_pattern :: string where
  "timestamp_pattern = ''YYYY-MM-DD HH:MM:SS +HHMM''"

record timestamp =
  year :: nat
  month :: nat
  day :: nat
  hour :: nat
  minute :: nat
  second :: nat
  offset_negative :: bool
  offset_hours :: nat
  offset_minutes :: nat

definition digits_at :: "nat \<Rightarrow> nat \<Rightarrow> string \<Rightarrow> nat" where
  "digits_at pos len s = decimal (take len (drop pos s))"

definition parse_timestamp :: "string \<Rightarrow> timestamp option" where
  "parse_timestamp s =
     (if matches_pattern timestamp_pattern s
      then Some \<lparr> year = digits_at 0 4 s, month = digits_at 5 2 s, day = digits_at 8 2 s,
                  hour = digits_at 11 2 s, minute = digits_at 14 2 s,
                  second = digits_at 17 2 s,
                  offset_negative = (s ! 20 = CHR ''-''),
                  offset_hours = digits_at 21 2 s, offset_minutes = digits_at 23 2 s \<rparr>
      else None)"

definition leap_year :: "nat \<Rightarrow> bool" where
  "leap_year y = (y mod 4 = 0 \<and> (0 < y mod 100 \<or> y mod 400 = 0))"

definition days_in_month :: "nat \<Rightarrow> nat \<Rightarrow> nat" where
  "days_in_month y m =
     (if m = 2 then (if leap_year y then 29 else 28)
      else if m = 4 \<or> m = 6 \<or> m = 9 \<or> m = 11 then 30
      else 31)"

definition valid_date_time :: "timestamp \<Rightarrow> bool" where
  "valid_date_time t =
     (1 \<le> month t \<and> month t \<le> 12 \<and> 1 \<le> day t \<and> day t \<le> days_in_month (year t) (month t)
      \<and> hour t < 24 \<and> minute t < 60 \<and> second t < 60)"

text \<open>
  The widest reading of "a valid hours/minutes offset": the hours are hours of a day and
  the minutes are minutes of an hour. (The offsets in use lie between -1200 and +1400.)
\<close>

definition valid_utc_offset :: "timestamp \<Rightarrow> bool" where
  "valid_utc_offset t = (offset_hours t < 24 \<and> offset_minutes t < 60)"

text \<open>
  The format with a valid offset: the text matches the pattern and its last four digits
  are a valid offset of hours and minutes.
\<close>

definition timestamp_with_valid_offset :: "string \<Rightarrow> bool" where
  "timestamp_with_valid_offset s =
     (case parse_timestamp s of None \<Rightarrow> False | Some t \<Rightarrow> valid_utc_offset t)"

text \<open>The date and time of day of a timestamp, most significant field first.\<close>

definition date_time_key :: "timestamp \<Rightarrow> nat list" where
  "date_time_key t = [year t, month t, day t, hour t, minute t, second t]"

text \<open>
  The instant a timestamp denotes, in seconds since 1970-01-01 00:00:00 UTC: the days of
  the proleptic Gregorian calendar up to the date, the time of day, and the offset taken
  off.
\<close>

definition days_from_civil :: "nat \<Rightarrow> nat \<Rightarrow> nat \<Rightarrow> int" where
  "days_from_civil y m d =
     (let y' = (if m \<le> 2 then int y - 1 else int y);
          era = y' div 400;
          yoe = y' mod 400;
          mp = (int m + 9) mod 12;
          doy = (153 * mp + 2) div 5 + int d - 1;
          doe = yoe * 365 + yoe div 4 - yoe div 100 + doy
      in era * 146097 + doe - 719468)"

definition utc_seconds :: "timestamp \<Rightarrow> int" where
  "utc_seconds t =
     days_from_civil (year t) (month t) (day t) * 86400
       + int (hour t) * 3600 + int (minute t) * 60 + int (second t)
       - (if offset_negative t then - 1 else 1)
           * (int (offset_hours t) * 3600 + int (offset_minutes t) * 60)"


section \<open>The generator of the record\<close>

text \<open>
  The header comment of the file says that it is updated by \<^verbatim>\<open>scripts/sync-repo-info\<close>.
  \<^verbatim>\<open>RepoInfo.cc\<close> holds no code of that generator; the definitions of this section
  follow its description in the specification (sections 4.1, 6 and 7).
\<close>

text \<open>Modelled from the spec: the two error conditions of the generator (section 7).\<close>

datatype error = EnvironmentUnavailable | NotAVersionControlledTree

text \<open>
  Modelled from the spec: the version control of a source root (section 9: the variants
  Git, Subversion and none), with the checked-out revision identifier and the remote
  origin URL where there is one.
\<close>

datatype vcs =
  Git string string
| Subversion string string
| Untracked

text \<open>
  Modelled from the spec: what the generator inspects at a source root, namely the most
  recent modification of the tracked sources and the version-control metadata.
\<close>

record source_tree =
  last_modified :: timestamp
  version_control :: vcs

text \<open>
  Modelled from the spec: the current timestamp at generation time. The clock of the
  build host is read with its date, time of day and offset, and with the fraction of the
  second that has passed, in nanoseconds.
\<close>

record clock_reading =
  now :: timestamp
  nanosecond :: nat

text \<open>
  Modelled from the spec: the environment of the build host (section 6): the host name,
  the user and the operating system where they can be determined, the configured user
  identity, and the clock.
\<close>

record environment =
  host_identity :: "(string \<times> string \<times> string) option"
  user_identity :: string
  clock :: clock_reading

text \<open>Modelled from the spec: the sentinel placeholder string (section 7).\<close>

definition placeholder :: string where
  "placeholder = ''unknown''"

text \<open>Modelled from the spec: the character of a decimal digit, for the generator's
  formatting of timestamps.\<close>

definition digit_char :: "nat \<Rightarrow> char" where
  "digit_char n = char_of (of_char CHR ''0'' + n)"

text \<open>Modelled from the spec: a field of the width \<^verbatim>\<open>MM\<close>, \<^verbatim>\<open>DD\<close>, \<^verbatim>\<open>HH\<close> or \<^verbatim>\<open>SS\<close>:
  two decimal digits.\<close>

definition two_digits :: "nat \<Rightarrow> string" where
  "two_digits n = [digit_char (n div 10 mod 10), digit_char (n mod 10)]"

text \<open>Modelled from the spec: the field of the width \<^verbatim>\<open>YYYY\<close>: four decimal digits.\<close>

definition four_digits :: "nat \<Rightarrow> string" where
  "four_digits n =
     [digit_char (n div 1000 mod 10), digit_char (n div 100 mod 10),
      digit_char (n div 10 mod 10), digit_char (n mod 10)]"

text \<open>Modelled from the spec: the signed offset \<^verbatim>\<open>+HHMM\<close> or \<^verbatim>\<open>-HHMM\<close> that ends a
  timestamp.\<close>

definition format_offset :: "timestamp \<Rightarrow> string" where
  "format_offset t =
     (if offset_negative t then ''-'' else ''+'')
       @ two_digits (offset_hours t) @ two_digits (offset_minutes t)"

text \<open>
  Modelled from the spec: the generator's formatting of a timestamp as
  \<^verbatim>\<open>YYYY-MM-DD HH:MM:SS +HHMM\<close> (section 4.1), every field in decimal digits of the width
  the pattern gives it.
\<close>

definition format_timestamp :: "timestamp \<Rightarrow> string" where
  "format_timestamp t =
     four_digits (year t) @ ''-'' @ two_digits (month t) @ ''-'' @ two_digits (day t)
       @ '' '' @ two_digits (hour t) @ '':'' @ two_digits (minute t) @ '':''
       @ two_digits (second t) @ '' '' @ format_offset t"

text \<open>
  Modelled from the spec: \<^verbatim>\<open>collectHostInfo\<close> (section 4.1), which fails silently with
  placeholder values when the information is unavailable.
\<close>

definition collectHostInfo :: "environment \<Rightarrow> string \<times> string \<times> string" where
  "collectHostInfo env =
     (case host_identity env of
        None \<Rightarrow> (placeholder, placeholder, placeholder)
      | Some identity \<Rightarrow> identity)"

text \<open>
  Modelled from the spec: \<^verbatim>\<open>collectBuildIdentity\<close> (section 4.1): the configured user
  identity and the current timestamp, formatted.
\<close>

definition collectBuildIdentity :: "environment \<Rightarrow> string \<times> string" where
  "collectBuildIdentity env = (user_identity env, format_timestamp (now (clock env)))"

text \<open>
  Modelled from the spec: \<^verbatim>\<open>collectSourceModifyTime\<close> (section 4.1): the most recent
  modification of the tracked source tree, in the same format.
\<close>

definition collectSourceModifyTime :: "source_tree \<Rightarrow> string" where
  "collectSourceModifyTime root = format_timestamp (last_modified root)"

text \<open>
  Modelled from the spec: \<^verbatim>\<open>collectRepoIdentity\<close> (section 4.1): the revision identifier
  and the remote origin URL, or the condition \<open>NotAVersionControlledTree\<close> when the source
  root is not under version control.
\<close>

definition collectRepoIdentity :: "source_tree \<Rightarrow> error + string \<times> string" where
  "collectRepoIdentity root =
     (case version_control root of
        Git revision url \<Rightarrow> Inr (revision, url)
      | Subversion revision url \<Rightarrow> Inr (revision, url)
      | Untracked \<Rightarrow> Inl NotAVersionControlledTree)"

text \<open>
  Modelled from the spec: the record the generator produces from the four collecting
  operations, with the placeholder in both repository fields when the source root is not
  version controlled (sections 4.1 and 7).
\<close>

definition collect :: "environment \<Rightarrow> source_tree \<Rightarrow> RepoInfo" where
  "collect env root =
     (let (host, user, os) = collectHostInfo env;
          (identity, built) = collectBuildIdentity env;
          modified = collectSourceModifyTime root;
          (revision, url) =
            (case collectRepoIdentity root of
               Inl condition \<Rightarrow> (placeholder, placeholder)
             | Inr repo \<Rightarrow> repo)
      in \<lparr> hostName = host, hostUser = user, hostOsNV = os,
           buildUser = identity, buildTime = built,
           modifyTime = modified,
           repoHash = revision, repoUrl = url \<rparr>)"

text \<open>
  Modelled from the spec: \<^verbatim>\<open>emit\<close> (section 4.1): the record is written as one artifact at
  the output path, in place of whatever was there. A file system maps a path to the record
  that the artifact at that path defines.
\<close>

definition emit :: "RepoInfo \<Rightarrow> string \<Rightarrow> (string \<rightharpoonup> RepoInfo) \<Rightarrow> (string \<rightharpoonup> RepoInfo)" where
  "emit record_to_write outputPath files = files(outputPath \<mapsto> record_to_write)"

text \<open>
  Modelled from the spec: one run of the generator: collect, emit, and return success
  (the value 0) in every case, the two error conditions being non-fatal (section 7).
\<close>

definition generator ::
  "environment \<Rightarrow> source_tree \<Rightarrow> string \<Rightarrow> (string \<rightharpoonup> RepoInfo) \<Rightarrow> (string \<rightharpoonup> RepoInfo) \<times> int" where
  "generator env root outputPath files = (emit (collect env root) outputPath files, 0)"

text \<open>
  The instant of a clock reading on a host with a fixed offset, most significant field
  first: readings taken at the same offset are in the order of these keys.
\<close>

definition instant_key :: "clock_reading \<Rightarrow> nat list" where
  "instant_key c = date_time_key (now c) @ [nanosecond c]"

text \<open>The date and time of day fit the widths of the pattern.\<close>

definition fits_pattern :: "timestamp \<Rightarrow> bool" where
  "fits_pattern t =
     (year t < 10000 \<and> month t < 100 \<and> day t < 100
      \<and> hour t < 100 \<and> minute t < 100 \<and> second t < 100)"

definition same_offset :: "timestamp \<Rightarrow> timestamp \<Rightarrow> bool" where
  "same_offset s t =
     (offset_negative s = offset_negative t \<and> offset_hours s = offset_hours t
      \<and> offset_minutes s = offset_minutes t)"

subsection \<open>Sample inputs\<close>

text \<open>
  An environment and a source tree on which the generator, as modelled, produces the
  record of \<^verbatim>\<open>RepoInfo.cc\<close>; the same tree without version control; and a Git tree
  (the scenario of section 8 of the specification).
\<close>

definition sample_clock :: clock_reading where
  "sample_clock =
     \<lparr> now = \<lparr> year = 2018, month = 1, day = 30, hour = 10, minute = 20, second = 30,
               offset_negative = False, offset_hours = 8, offset_minutes = 45 \<rparr>,
       nanosecond = 0 \<rparr>"

definition sample_environment :: environment where
  "sample_environment =
     \<lparr> host_identity = Some (''host name'', ''user name'', ''Ubuntu 14.04''),
       user_identity = ''user-name <email@demo.com>'',
       clock = sample_clock \<rparr>"

definition sample_tree :: source_tree where
  "sample_tree =
     \<lparr> last_modified =
         \<lparr> year = 2019, month = 1, day = 30, hour = 20, minute = 50, second = 59,
           offset_negative = False, offset_hours = 81, offset_minutes = 23 \<rparr>,
       version_control = Subversion ''615'' ''svn://addr/app/trunk/mta'' \<rparr>"

definition untracked_tree :: source_tree where
  "untracked_tree = sample_tree\<lparr>version_control := Untracked\<rparr>"

definition git_tree :: source_tree where
  "git_tree = sample_tree\<lparr>version_control := Git ''abc123'' ''https://example.com/repo.git''\<rparr>"

text \<open>Two later readings of the sample clock: half a second on, and one second on.\<close>

definition half_a_second_later :: clock_reading where
  "half_a_second_later = sample_clock\<lparr>nanosecond := 500000000\<rparr>"

definition one_second_later :: clock_reading where
  "one_second_later = sample_clock\<lparr>now := (now sample_clock)\<lparr>second := 31\<rparr>\<rparr>"


section \<open>Properties of the emitted record\<close>

lemma lines_of_run_empty:
  "lines_of (chars (cout (fst (run \<lparr>chars = [], flushed = 0\<rparr>)))) =
     [''host name'', ''user name'', ''Ubuntu 14.04'', ''user-name <email@demo.com>'',
      ''2018-01-30 10:20:30 +0845'', ''2019-01-30 20:50:59 +8123'', ''615'',
      ''svn://addr/app/trunk/mta'']"
  by (simp add: run_def static_init_def main_def Let_def endl_def flush_def put_string_def
      RepoInfo_init_def lines_of_def newline_def)

lemma chars_run:
  "chars (cout (fst (run os))) =
     chars os @ ''host name'' @ [newline] @ ''user name'' @ [newline]
       @ ''Ubuntu 14.04'' @ [newline] @ ''user-name <email@demo.com>'' @ [newline]
       @ ''2018-01-30 10:20:30 +0845'' @ [newline] @ ''2019-01-30 20:50:59 +8123'' @ [newline]
       @ ''615'' @ [newline] @ ''svn://addr/app/trunk/mta'' @ [newline]"
  by (simp add: run_def static_init_def main_def Let_def endl_def flush_def put_string_def
      RepoInfo_init_def)

text \<open>
  Claim C1. The translation unit defines exactly eight string constants; their names are
  hostName, hostUser, hostOsNV, buildUser, buildTime, modifyTime, repoHash and repoUrl, in
  that order and without repetition; every one of them is qualified by the one scope
  RepoInfo; and every one of them is initialised with a string literal. The eight members
  are all there is in the record: two records that agree on them are equal.
\<close>

theorem RepoInfo_defines_eight_named_constants:
  "map (fst \<circ> snd) RepoInfo_constants =
     [''hostName'', ''hostUser'', ''hostOsNV'', ''buildUser'', ''buildTime'', ''modifyTime'',
      ''repoHash'', ''repoUrl'']
   \<and> length RepoInfo_constants = 8
   \<and> distinct (map (fst \<circ> snd) RepoInfo_constants)
   \<and> map fst RepoInfo_constants = replicate 8 ''RepoInfo''
   \<and> map (snd \<circ> snd) RepoInfo_constants =
     [''host name'', ''user name'', ''Ubuntu 14.04'', ''user-name <email@demo.com>'',
      ''2018-01-30 10:20:30 +0845'', ''2019-01-30 20:50:59 +8123'', ''615'',
      ''svn://addr/app/trunk/mta'']
   \<and> ((map (\<lambda>(name, member). member r) RepoInfo_members
        = map (\<lambda>(name, member). member r') RepoInfo_members) = (r = r'))"
proof -
  have names_and_values:
    "map (fst \<circ> snd) RepoInfo_constants =
       [''hostName'', ''hostUser'', ''hostOsNV'', ''buildUser'', ''buildTime'', ''modifyTime'',
        ''repoHash'', ''repoUrl'']
     \<and> length RepoInfo_constants = 8
     \<and> distinct (map (fst \<circ> snd) RepoInfo_constants)
     \<and> map fst RepoInfo_constants = replicate 8 ''RepoInfo''
     \<and> map (snd \<circ> snd) RepoInfo_constants =
       [''host name'', ''user name'', ''Ubuntu 14.04'', ''user-name <email@demo.com>'',
        ''2018-01-30 10:20:30 +0845'', ''2019-01-30 20:50:59 +8123'', ''615'',
        ''svn://addr/app/trunk/mta'']"
    by (simp add: RepoInfo_constants_def RepoInfo_members_def RepoInfo_init_def
        eval_nat_numeral)
  have nothing_else:
    "(map (\<lambda>(name, member). member r) RepoInfo_members
        = map (\<lambda>(name, member). member r') RepoInfo_members) = (r = r')"
    by (cases r, cases r') (auto simp add: RepoInfo_members_def)
  from names_and_values nothing_else show ?thesis by blast
qed

text \<open>
  Claim C2. From any state, \<open>main\<close> appends to the standard output the eight members,
  each followed by a newline, in the order hostName, hostUser, hostOsNV, buildUser,
  buildTime, modifyTime, repoHash, repoUrl; all of it is flushed; nothing else of the state
  changes and 0 is returned. A run that starts on an empty stream leaves exactly the eight
  initialisers as the lines of the output, one per line.
\<close>

theorem main_prints_the_eight_members_in_order:
  "main g =
     (let r = repo_info g;
          out = chars (cout g)
            @ hostName r @ [newline] @ hostUser r @ [newline] @ hostOsNV r @ [newline]
            @ buildUser r @ [newline] @ buildTime r @ [newline] @ modifyTime r @ [newline]
            @ repoHash r @ [newline] @ repoUrl r @ [newline]
      in (g\<lparr>cout := \<lparr>chars = out, flushed = length out\<rparr>\<rparr>, 0))
   \<and> lines_of (chars (cout (fst (run \<lparr>chars = [], flushed = 0\<rparr>)))) =
       [''host name'', ''user name'', ''Ubuntu 14.04'', ''user-name <email@demo.com>'',
        ''2018-01-30 10:20:30 +0845'', ''2019-01-30 20:50:59 +8123'', ''615'',
        ''svn://addr/app/trunk/mta'']"
proof -
  have "main g =
     (let r = repo_info g;
          out = chars (cout g)
            @ hostName r @ [newline] @ hostUser r @ [newline] @ hostOsNV r @ [newline]
            @ buildUser r @ [newline] @ buildTime r @ [newline] @ modifyTime r @ [newline]
            @ repoHash r @ [newline] @ repoUrl r @ [newline]
      in (g\<lparr>cout := \<lparr>chars = out, flushed = length out\<rparr>\<rparr>, 0))"
    by (simp add: main_def Let_def endl_def flush_def put_string_def)
  with lines_of_run_empty show ?thesis by blast
qed

text \<open>
  Claim C4. No field of the record changes while the program runs: the record at the
  return of \<open>main\<close> is the record at its entry, and after a whole run it is the record
  that static initialisation created.
\<close>

theorem main_never_mutates_RepoInfo:
  "repo_info (fst (main g)) = repo_info g
   \<and> repo_info (fst (run os)) = RepoInfo_init
   \<and> repo_info (static_init os) = RepoInfo_init"
  by (simp add: main_def run_def static_init_def Let_def)

subsection \<open>The program on an output device\<close>

lemma print_line_cases:
  "print_line dev p s =
     (if badbit p then Inr p
      else case dev (writes p) of
             Written \<Rightarrow>
               Inr (p\<lparr>mem := (mem p)\<lparr>cout := endl (put_string (cout (mem p)) s)\<rparr>,
                     writes := Suc (writes p)\<rparr>)
           | Failed \<Rightarrow>
               Inr (p\<lparr>mem := (mem p)\<lparr>cout := (cout (mem p))\<lparr>chars := chars (cout (mem p)) @ s @ [newline]\<rparr>\<rparr>,
                     badbit := True, writes := Suc (writes p)\<rparr>)
           | Killed \<Rightarrow> Inl Signalled
           | Blocked \<Rightarrow> Inl Hung)"
  by (simp add: print_line_def endl_on_def put_string_on_def endl_def put_string_def Let_def
      split: write_result.split)

lemma main_on_print_lines:
  "main_on dev p =
     and_then (print_lines dev p (map snd RepoInfo_members)) (\<lambda>q. Inr (q, 0))"
  by (simp add: main_on_def RepoInfo_members_def and_then_def split: sum.split)

lemma main_on_returns_only_zero:
  "main_on dev p = Inr (q, n) \<Longrightarrow> n = 0"
  by (auto simp add: main_on_print_lines and_then_def split: sum.splits)

lemma print_line_returns:
  assumes "badbit p \<or> dev (writes p) = Written \<or> dev (writes p) = Failed"
  shows "\<exists>q. print_line dev p s = Inr q \<and> writes p \<le> writes q \<and> writes q \<le> Suc (writes p)"
  using assms by (auto simp add: print_line_cases)

lemma print_lines_return:
  assumes "\<forall>k. writes p \<le> k \<and> k < writes p + length members
             \<longrightarrow> dev k = Written \<or> dev k = Failed"
  shows "\<exists>q. print_lines dev p members = Inr q"
  using assms
proof (induction members arbitrary: p)
  case Nil
  show ?case by simp
next
  case (Cons member members)
  from Cons.prems have "dev (writes p) = Written \<or> dev (writes p) = Failed" by simp
  then have "badbit p \<or> dev (writes p) = Written \<or> dev (writes p) = Failed" by blast
  then have "\<exists>q. print_line dev p (member (repo_info (mem p))) = Inr q
      \<and> writes p \<le> writes q \<and> writes q \<le> Suc (writes p)"
    by (rule print_line_returns)
  then obtain q where q: "print_line dev p (member (repo_info (mem p))) = Inr q"
    and lo: "writes p \<le> writes q" and hi: "writes q \<le> Suc (writes p)"
    by blast
  have "\<forall>k. writes q \<le> k \<and> k < writes q + length members
            \<longrightarrow> dev k = Written \<or> dev k = Failed"
  proof (intro allI impI)
    fix k assume "writes q \<le> k \<and> k < writes q + length members"
    with lo hi have "writes p \<le> k \<and> k < writes p + length (member # members)" by simp
    with Cons.prems show "dev k = Written \<or> dev k = Failed" by blast
  qed
  from Cons.IH [OF this] obtain q' where "print_lines dev q members = Inr q'" by blast
  with q show ?case by (simp add: and_then_def)
qed

lemma print_lines_accepted:
  assumes "\<not> badbit p"
      and "\<forall>k. writes p \<le> k \<and> k < writes p + length members \<longrightarrow> dev k = Written"
  shows "print_lines dev p members =
     Inr (p\<lparr>mem := (mem p)\<lparr>cout :=
               foldl (\<lambda>os member. endl (put_string os (member (repo_info (mem p)))))
                 (cout (mem p)) members\<rparr>,
            writes := writes p + length members\<rparr>)"
  using assms
proof (induction members arbitrary: p)
  case Nil
  show ?case by simp
next
  case (Cons member members)
  let ?q = "p\<lparr>mem := (mem p)\<lparr>cout := endl (put_string (cout (mem p)) (member (repo_info (mem p))))\<rparr>,
              writes := Suc (writes p)\<rparr>"
  from Cons.prems have first: "dev (writes p) = Written" by simp
  with Cons.prems(1) have step: "print_line dev p (member (repo_info (mem p))) = Inr ?q"
    by (simp add: print_line_cases)
  have good: "\<not> badbit ?q" using Cons.prems(1) by simp
  have rest: "\<forall>k. writes ?q \<le> k \<and> k < writes ?q + length members \<longrightarrow> dev k = Written"
    using Cons.prems(2) by simp
  from Cons.IH [OF good rest] step show ?case by (simp add: and_then_def)
qed

lemma answers_all:
  "list_all P (answers dev p n) = (\<forall>k. writes p \<le> k \<and> k < writes p + n \<longrightarrow> P (dev k))"
  by (auto simp add: answers_def list_all_iff)

lemma main_as_foldl:
  "fst (main g) =
     g\<lparr>cout := foldl (\<lambda>os member. endl (put_string os (member (repo_info g))))
                 (cout g) (map snd RepoInfo_members)\<rparr>"
  by (simp add: main_def RepoInfo_members_def Let_def)

text \<open>
  Claim C8, as stated, fails: when the standard output is a pipe whose reader is gone, the
  first \<^verbatim>\<open>std::endl\<close> of \<open>main\<close> writes to it, the process is killed by the signal, and
  \<open>main\<close> does not return.
\<close>

theorem main_on_a_closed_pipe_never_returns:
  "run_on closed_pipe \<lparr>chars = [], flushed = 0\<rparr> = Inl Signalled"
  by (simp add: run_on_def boot_def main_on_def print_line_cases and_then_def closed_pipe_def)

text \<open>
  Claim C8, amended. \<open>main\<close> has no error branch: whatever the device answers, when
  \<open>main\<close> returns it returns 0. It does return, with 0, whenever none of the eight writes
  it may issue is answered by a fatal signal or blocks for ever, also when writes fail with
  an error; and on a good stream whose eight writes are all taken it returns 0 in the state
  that \<open>main\<close> computes without a device, after exactly eight writes.
\<close>

theorem main_returns_zero_unless_the_device_stops_it:
  "(main_on dev p = Inr (q, n) \<longrightarrow> n = 0)
   \<and> (list_all (\<lambda>a. a = Written \<or> a = Failed) (answers dev p 8)
        \<longrightarrow> (\<exists>q'. main_on dev p = Inr (q', 0)))
   \<and> (\<not> badbit p \<and> list_all (\<lambda>a. a = Written) (answers dev p 8)
        \<longrightarrow> main_on dev p = Inr (p\<lparr>mem := fst (main (mem p)), writes := writes p + 8\<rparr>, 0))"
proof (intro conjI impI)
  assume "main_on dev p = Inr (q, n)"
  then show "n = 0" by (rule main_on_returns_only_zero)
next
  assume "list_all (\<lambda>a. a = Written \<or> a = Failed) (answers dev p 8)"
  then have "\<forall>k. writes p \<le> k \<and> k < writes p + length (map snd RepoInfo_members)
      \<longrightarrow> dev k = Written \<or> dev k = Failed"
    by (simp add: answers_all RepoInfo_members_def)
  from print_lines_return [OF this]
  show "\<exists>q'. main_on dev p = Inr (q', 0)"
    by (auto simp add: main_on_print_lines and_then_def)
next
  assume a: "\<not> badbit p \<and> list_all (\<lambda>a. a = Written) (answers dev p 8)"
  then have good: "\<not> badbit p" by simp
  from a have "\<forall>k. writes p \<le> k \<and> k < writes p + length (map snd RepoInfo_members)
      \<longrightarrow> dev k = Written"
    by (simp add: answers_all RepoInfo_members_def)
  from print_lines_accepted [OF good this]
  show "main_on dev p = Inr (p\<lparr>mem := fst (main (mem p)), writes := writes p + 8\<rparr>, 0)"
    by (simp add: main_on_print_lines and_then_def main_as_foldl)
      (simp add: RepoInfo_members_def)
qed

theorem main_returns_zero_unless_the_device_stops_it_witness:
  "\<not> badbit (boot \<lparr>chars = [], flushed = 0\<rparr>)
   \<and> list_all (\<lambda>a. a = Written)
        (answers accepting_device (boot \<lparr>chars = [], flushed = 0\<rparr>) 8)
   \<and> list_all (\<lambda>a. a = Written \<or> a = Failed)
        (answers failing_device (boot \<lparr>chars = [], flushed = 0\<rparr>) 8)
   \<and> run_on accepting_device \<lparr>chars = [], flushed = 0\<rparr> =
        Inr ((boot \<lparr>chars = [], flushed = 0\<rparr>)
               \<lparr>mem := fst (run \<lparr>chars = [], flushed = 0\<rparr>), writes := 8\<rparr>, 0)
   \<and> (\<exists>q. run_on failing_device \<lparr>chars = [], flushed = 0\<rparr> = Inr (q, 0))"
proof -
  let ?e = "\<lparr>chars = [], flushed = 0\<rparr>"
  have good: "\<not> badbit (boot ?e)"
    by (simp add: boot_def)
  have taken: "list_all (\<lambda>a. a = Written) (answers accepting_device (boot ?e) 8)"
    by (simp add: answers_def accepting_device_def list_all_iff)
  have refused:
    "list_all (\<lambda>a. a = Written \<or> a = Failed) (answers failing_device (boot ?e) 8)"
    by (simp add: answers_def failing_device_def list_all_iff)
  from main_returns_zero_unless_the_device_stops_it [of accepting_device "boot ?e"]
    good taken
  have "main_on accepting_device (boot ?e) =
      Inr ((boot ?e)\<lparr>mem := fst (main (mem (boot ?e))), writes := writes (boot ?e) + 8\<rparr>, 0)"
    by blast
  then have returned: "run_on accepting_device ?e =
      Inr ((boot ?e)\<lparr>mem := fst (run ?e), writes := 8\<rparr>, 0)"
    by (simp add: run_on_def run_def boot_def)
  from main_returns_zero_unless_the_device_stops_it [of failing_device "boot ?e"] refused
  have "\<exists>q. main_on failing_device (boot ?e) = Inr (q, 0)"
    by blast
  then have lost: "\<exists>q. run_on failing_device ?e = Inr (q, 0)"
    by (simp add: run_on_def)
  from good taken refused returned lost show ?thesis by blast
qed

text \<open>
  Claim C5. The member repoHash is a string: a record holds whatever string is stored in
  it. The record of the example holds the sequential revision 615, written in decimal
  digits; a content hash such as abc123, which is no number, is held just as well.
\<close>

theorem repoHash_is_a_free_form_string:
  "repoHash (r\<lparr>repoHash := v\<rparr>) = v
   \<and> repoHash RepoInfo_init = ''615''
   \<and> list_all is_digit (repoHash RepoInfo_init)
   \<and> decimal (repoHash RepoInfo_init) = 615
   \<and> repoHash (RepoInfo_init\<lparr>repoHash := ''abc123''\<rparr>) = ''abc123''
   \<and> \<not> list_all is_digit ''abc123''"
  by (simp add: RepoInfo_init_def is_digit_def less_eq_char_def decimal_def digit_val_def)

text \<open>
  Claim C9. None of the eight constants is the empty string, and no line of the text that
  a run appends to the standard output is empty, whatever the stream held before.
\<close>

theorem no_constant_and_no_printed_line_is_empty:
  "list_all (\<lambda>(scope, name, initialiser). initialiser \<noteq> []) RepoInfo_constants
   \<and> list_all (\<lambda>line. line \<noteq> [])
         (lines_of (drop (length (chars os)) (chars (cout (fst (run os))))))"
proof -
  have constants: "list_all (\<lambda>(scope, name, initialiser). initialiser \<noteq> []) RepoInfo_constants"
    by (simp add: RepoInfo_constants_def RepoInfo_members_def RepoInfo_init_def)
  have printed: "list_all (\<lambda>line. line \<noteq> [])
      (lines_of (drop (length (chars os)) (chars (cout (fst (run os))))))"
    by (simp add: chars_run) (simp add: lines_of_def newline_def)
  from constants printed show ?thesis by (rule conjI)
qed

subsection \<open>The two timestamps\<close>

lemmas timestamp_eval =
  parse_timestamp_def timestamp_pattern_def is_digit_def is_sign_def digits_at_def
  decimal_def digit_val_def less_eq_char_def

lemma parse_buildTime:
  "parse_timestamp (buildTime RepoInfo_init) =
     Some \<lparr> year = 2018, month = 1, day = 30, hour = 10, minute = 20, second = 30,
            offset_negative = False, offset_hours = 8, offset_minutes = 45 \<rparr>"
  by (simp add: timestamp_eval RepoInfo_init_def)

lemma parse_modifyTime:
  "parse_timestamp (modifyTime RepoInfo_init) =
     Some \<lparr> year = 2019, month = 1, day = 30, hour = 20, minute = 50, second = 59,
            offset_negative = False, offset_hours = 81, offset_minutes = 23 \<rparr>"
  by (simp add: timestamp_eval RepoInfo_init_def)

text \<open>
  Claim C3, as stated, fails on modifyTime: its text ends with \<open>+8123\<close>, a sign and four
  digits whose hours field is 81, which is no valid offset of hours and minutes.
\<close>

theorem modifyTime_offset_is_not_valid:
  "map_option offset_hours (parse_timestamp (modifyTime RepoInfo_init)) = Some 81
   \<and> \<not> timestamp_with_valid_offset (modifyTime RepoInfo_init)"
  by (simp add: parse_modifyTime timestamp_with_valid_offset_def valid_utc_offset_def)

text \<open>
  Claim C3, amended. Both timestamp members match the pattern
  \<^verbatim>\<open>YYYY-MM-DD HH:MM:SS +HHMM\<close> character by character, so each ends with a sign followed
  by four digits, and the date and time of day of each are valid. The four digits are a
  valid offset of hours and minutes in buildTime (\<open>+0845\<close>); of those of modifyTime nothing
  is said.
\<close>

theorem timestamps_match_the_pattern:
  "matches_pattern timestamp_pattern (buildTime RepoInfo_init)
   \<and> matches_pattern timestamp_pattern (modifyTime RepoInfo_init)
   \<and> map_option valid_date_time (parse_timestamp (buildTime RepoInfo_init)) = Some True
   \<and> map_option valid_date_time (parse_timestamp (modifyTime RepoInfo_init)) = Some True
   \<and> timestamp_with_valid_offset (buildTime RepoInfo_init)"
proof -
  have shape:
    "matches_pattern timestamp_pattern (buildTime RepoInfo_init)
     \<and> matches_pattern timestamp_pattern (modifyTime RepoInfo_init)"
    by (simp add: timestamp_eval RepoInfo_init_def)
  have fields:
    "map_option valid_date_time (parse_timestamp (buildTime RepoInfo_init)) = Some True
     \<and> map_option valid_date_time (parse_timestamp (modifyTime RepoInfo_init)) = Some True
     \<and> timestamp_with_valid_offset (buildTime RepoInfo_init)"
    by (simp add: parse_modifyTime parse_buildTime timestamp_with_valid_offset_def
        valid_utc_offset_def valid_date_time_def days_in_month_def)
  from shape fields show ?thesis by blast
qed

text \<open>
  Claim C10. The date and time of day recorded in modifyTime, 2019-01-30 20:50:59, come
  strictly after those recorded in buildTime, 2018-01-30 10:20:30; and with the offsets
  taken off, the instant modifyTime denotes is still the later one.
\<close>

theorem modifyTime_is_later_than_buildTime:
  "map_option date_time_key (parse_timestamp (buildTime RepoInfo_init))
     = Some [2018, 1, 30, 10, 20, 30]
   \<and> map_option date_time_key (parse_timestamp (modifyTime RepoInfo_init))
     = Some [2019, 1, 30, 20, 50, 59]
   \<and> [2018, 1, 30, 10, 20, 30] < [2019, 1, 30, 20, 50, 59 :: nat]
   \<and> map_option utc_seconds (parse_timestamp (buildTime RepoInfo_init)) = Some 1517276130
   \<and> map_option utc_seconds (parse_timestamp (modifyTime RepoInfo_init)) = Some 1548588479
   \<and> (1517276130 :: int) < 1548588479"
  by (simp add: parse_modifyTime parse_buildTime date_time_key_def utc_seconds_def
      days_from_civil_def Let_def)


section \<open>Properties of the generator\<close>

subsection \<open>Decimal fields keep the order of their numbers\<close>

lemma digit_char_numerals:
  "digit_char 0 = CHR ''0''" "digit_char 1 = CHR ''1''" "digit_char 2 = CHR ''2''"
  "digit_char 3 = CHR ''3''" "digit_char 4 = CHR ''4''" "digit_char 5 = CHR ''5''"
  "digit_char 6 = CHR ''6''" "digit_char 7 = CHR ''7''" "digit_char 8 = CHR ''8''"
  "digit_char 9 = CHR ''9''" "digit_char (Suc 0) = CHR ''1''"
  by (simp_all add: digit_char_def char_of_def bit_0)

lemmas format_eval =
  format_timestamp_def format_offset_def two_digits_def four_digits_def digit_char_numerals

lemma of_char_digit_char: "n < 10 \<Longrightarrow> of_char (digit_char n) = 48 + n"
  by (simp add: digit_char_def)

lemma digit_char_less: "a < 10 \<Longrightarrow> b < 10 \<Longrightarrow> (digit_char a < digit_char b) = (a < b)"
  by (simp add: less_char_def of_char_digit_char)

lemma digit_char_eq: "a < 10 \<Longrightarrow> b < 10 \<Longrightarrow> (digit_char a = digit_char b) = (a = b)"
proof
  assume "a < 10" "b < 10" "digit_char a = digit_char b"
  then have "of_char (digit_char a) = (of_char (digit_char b) :: nat)" by simp
  with \<open>a < 10\<close> \<open>b < 10\<close> show "a = b" by (simp add: of_char_digit_char)
qed simp

lemma radix_order:
  fixes q r q' r' k :: nat
  assumes "r < k" "r' < k"
  shows "(q < q' \<or> q = q' \<and> r < r') = (k * q + r < k * q' + r')"
proof (cases "q < q'")
  case True
  then have "Suc q \<le> q'" by simp
  then have "k * Suc q \<le> k * q'" by (rule mult_le_mono2)
  with assms True show ?thesis by simp
next
  case False
  show ?thesis
  proof (cases "q = q'")
    case True
    then show ?thesis by simp
  next
    case False
    with \<open>\<not> q < q'\<close> have "Suc q' \<le> q" by simp
    then have "k * Suc q' \<le> k * q" by (rule mult_le_mono2)
    with assms False \<open>\<not> q < q'\<close> show ?thesis by simp
  qed
qed

lemma pair_order:
  fixes a b k :: nat
  assumes "0 < k"
  shows "(a div k < b div k \<or> a div k = b div k \<and> a mod k < b mod k) = (a < b)"
proof -
  have "a mod k < k" "b mod k < k" using assms by simp_all
  then have "(a div k < b div k \<or> a div k = b div k \<and> a mod k < b mod k)
      = (k * (a div k) + a mod k < k * (b div k) + b mod k)"
    by (rule radix_order)
  then show ?thesis by simp
qed

lemma pair_eq:
  fixes a b k :: nat
  shows "(a div k = b div k \<and> a mod k = b mod k) = (a = b)"
  by (metis div_mult_mod_eq)


lemma two_digits_less:
  assumes "a < 100" "b < 100"
  shows "(two_digits a < two_digits b) = (a < b)"
proof -
  have "a div 10 < 10" "b div 10 < 10" using assms by simp_all
  then have "(two_digits a < two_digits b)
      = (a div 10 < b div 10 \<or> a div 10 = b div 10 \<and> a mod 10 < b mod 10)"
    by (simp add: two_digits_def digit_char_less digit_char_eq)
  then show ?thesis by (simp add: pair_order)
qed

lemma two_digits_eq:
  assumes "a < 100" "b < 100"
  shows "(two_digits a = two_digits b) = (a = b)"
proof -
  have "a div 10 < 10" "b div 10 < 10" using assms by simp_all
  then have "(two_digits a = two_digits b) = (a div 10 = b div 10 \<and> a mod 10 = b mod 10)"
    by (simp add: two_digits_def digit_char_eq)
  then show ?thesis by (simp add: pair_eq)
qed

lemma append_less_same_length:
  fixes a b :: "'a::linorder list"
  shows "length a = length b \<Longrightarrow> (a @ x < b @ y) = (a < b \<or> a = b \<and> x < y)"
proof (induction a arbitrary: b)
  case Nil
  then show ?case by simp
next
  case (Cons c a)
  then obtain d b' where b: "b = d # b'" and len: "length a = length b'"
    by (cases b) auto
  from Cons.IH [OF len] show ?case by (auto simp add: b)
qed

lemma length_two_digits: "length (two_digits n) = 2"
  by (simp add: two_digits_def)

lemma four_digits_split: "four_digits n = two_digits (n div 100) @ two_digits (n mod 100)"
proof -
  have thousands: "n div 100 div 10 = n div 1000" by (simp add: div_mult2_eq)
  have "n mod (10 * 10) = 10 * (n div 10 mod 10) + n mod 10" by (rule mod_mult2_eq)
  then have split: "n mod 100 = 10 * (n div 10 mod 10) + n mod 10" by simp
  have tens: "n mod 100 div 10 = n div 10 mod 10" unfolding split by simp
  have units: "n mod 100 mod 10 = n mod 10" unfolding split by simp
  show ?thesis by (simp add: four_digits_def two_digits_def thousands tens units)
qed

lemma four_digits_eq:
  assumes "a < 10000" "b < 10000"
  shows "(four_digits a = four_digits b) = (a = b)"
proof -
  have "a div 100 < 100" "b div 100 < 100" "a mod 100 < 100" "b mod 100 < 100"
    using assms by simp_all
  then have "(four_digits a = four_digits b) = (a div 100 = b div 100 \<and> a mod 100 = b mod 100)"
    by (simp add: four_digits_split two_digits_eq length_two_digits)
  then show ?thesis by (simp add: pair_eq)
qed

lemma four_digits_less:
  assumes "a < 10000" "b < 10000"
  shows "(four_digits a < four_digits b) = (a < b)"
proof -
  have r: "a div 100 < 100" "b div 100 < 100" "a mod 100 < 100" "b mod 100 < 100"
    using assms by simp_all
  have "length (two_digits (a div 100)) = length (two_digits (b div 100))"
    by (simp add: length_two_digits)
  then have "(four_digits a < four_digits b) =
     (two_digits (a div 100) < two_digits (b div 100)
      \<or> two_digits (a div 100) = two_digits (b div 100)
        \<and> two_digits (a mod 100) < two_digits (b mod 100))"
    unfolding four_digits_split by (rule append_less_same_length)
  also have "\<dots> = (a div 100 < b div 100 \<or> a div 100 = b div 100 \<and> a mod 100 < b mod 100)"
    using r by (simp add: two_digits_less two_digits_eq)
  also have "\<dots> = (a < b)" by (simp add: pair_order)
  finally show ?thesis .
qed


lemma length_four_digits: "length (four_digits n) = 4"
  by (simp add: four_digits_def)

lemma format_offset_same: "same_offset s t \<Longrightarrow> format_offset s = format_offset t"
  by (simp add: same_offset_def format_offset_def)

lemma format_timestamp_less:
  assumes "fits_pattern s" "fits_pattern t" "same_offset s t"
  shows "(format_timestamp s < format_timestamp t) = (date_time_key s < date_time_key t)"
  using assms(1,2)
  by (simp add: format_timestamp_def date_time_key_def fits_pattern_def
      format_offset_same [OF assms(3)]
      append_less_same_length length_two_digits length_four_digits
      two_digits_less two_digits_eq four_digits_less four_digits_eq)

lemma format_timestamp_eq:
  assumes "fits_pattern s" "fits_pattern t" "same_offset s t"
  shows "(format_timestamp s = format_timestamp t) = (date_time_key s = date_time_key t)"
  using assms(1,2)
  by (simp add: format_timestamp_def date_time_key_def fits_pattern_def
      format_offset_same [OF assms(3)] length_two_digits length_four_digits
      two_digits_eq four_digits_eq)

lemma date_time_key_of_instant_key:
  assumes "instant_key a < instant_key b"
  shows "date_time_key (now a) < date_time_key (now b)
         \<or> date_time_key (now a) = date_time_key (now b)"
proof -
  have "length (date_time_key (now a)) = length (date_time_key (now b))"
    by (simp add: date_time_key_def)
  then have "(instant_key a < instant_key b) =
      (date_time_key (now a) < date_time_key (now b)
       \<or> date_time_key (now a) = date_time_key (now b) \<and> [nanosecond a] < [nanosecond b])"
    unfolding instant_key_def by (rule append_less_same_length)
  with assms show ?thesis by blast
qed

subsection \<open>Formatted timestamps match the pattern and parse back\<close>

lemma is_digit_digit_char: "n < 10 \<Longrightarrow> is_digit (digit_char n)"
  by (simp add: is_digit_def less_eq_char_def of_char_digit_char)

lemma digit_val_digit_char: "n < 10 \<Longrightarrow> digit_val (digit_char n) = n"
  by (simp add: digit_val_def of_char_digit_char)

lemma format_timestamp_matches_pattern:
  "matches_pattern timestamp_pattern (format_timestamp t)"
  by (simp add: timestamp_pattern_def format_timestamp_def format_offset_def two_digits_def
      four_digits_def is_digit_digit_char is_sign_def)

lemma decimal_two_digits: "n < 100 \<Longrightarrow> decimal (two_digits n) = n"
  by (simp add: decimal_def two_digits_def digit_val_digit_char)

lemma decimal_four_digits: "n < 10000 \<Longrightarrow> decimal (four_digits n) = n"
proof -
  assume "n < 10000"
  then have "n div 100 < 100" by simp
  have "decimal (four_digits n) =
      100 * decimal (two_digits (n div 100)) + decimal (two_digits (n mod 100))"
    by (simp add: four_digits_split) (simp add: decimal_def two_digits_def)
  with \<open>n div 100 < 100\<close> show ?thesis by (simp add: decimal_two_digits)
qed

lemma parse_format_timestamp:
  assumes "fits_pattern t" "offset_hours t < 100" "offset_minutes t < 100"
  shows "parse_timestamp (format_timestamp t) = Some t"
proof -
  have "parse_timestamp (format_timestamp t) =
    Some \<lparr> year = decimal (four_digits (year t)),
           month = decimal (two_digits (month t)),
           day = decimal (two_digits (day t)),
           hour = decimal (two_digits (hour t)),
           minute = decimal (two_digits (minute t)),
           second = decimal (two_digits (second t)),
           offset_negative = offset_negative t,
           offset_hours = decimal (two_digits (offset_hours t)),
           offset_minutes = decimal (two_digits (offset_minutes t)) \<rparr>"
    unfolding parse_timestamp_def
    by (simp add: format_timestamp_matches_pattern)
      (simp add: format_timestamp_def format_offset_def digits_at_def length_two_digits
        length_four_digits nth_append)
  with assms show ?thesis
    by (simp add: fits_pattern_def decimal_two_digits decimal_four_digits)
qed

subsection \<open>The record the generator produces\<close>

lemma collect_fields:
  "hostName (collect env root) = fst (collectHostInfo env)"
  "hostUser (collect env root) = fst (snd (collectHostInfo env))"
  "hostOsNV (collect env root) = snd (snd (collectHostInfo env))"
  "buildUser (collect env root) = user_identity env"
  "buildTime (collect env root) = format_timestamp (now (clock env))"
  "modifyTime (collect env root) = format_timestamp (last_modified root)"
  "repoHash (collect env root) =
     (case collectRepoIdentity root of Inl condition \<Rightarrow> placeholder | Inr repo \<Rightarrow> fst repo)"
  "repoUrl (collect env root) =
     (case collectRepoIdentity root of Inl condition \<Rightarrow> placeholder | Inr repo \<Rightarrow> snd repo)"
  by (simp_all add: collect_def collectBuildIdentity_def collectSourceModifyTime_def
      Let_def split_beta split: sum.split)

text \<open>On the sample inputs the generator, as modelled, produces the record of the file.\<close>

lemma collect_sample: "collect sample_environment sample_tree = RepoInfo_init"
  by (simp add: collect_def collectHostInfo_def collectBuildIdentity_def
      collectSourceModifyTime_def collectRepoIdentity_def sample_environment_def
      sample_tree_def sample_clock_def RepoInfo_init_def format_eval Let_def)

lemma collect_untracked_sample:
  "collect sample_environment untracked_tree =
     RepoInfo_init\<lparr>repoHash := ''unknown'', repoUrl := ''unknown''\<rparr>"
  by (simp add: collect_def collectHostInfo_def collectBuildIdentity_def
      collectSourceModifyTime_def collectRepoIdentity_def sample_environment_def
      untracked_tree_def sample_tree_def sample_clock_def RepoInfo_init_def format_eval
      placeholder_def Let_def)

text \<open>The scenario of the Git-tracked tree at commit abc123.\<close>

lemma collect_git_tree:
  "repoHash (collect env git_tree) = ''abc123''
   \<and> repoUrl (collect env git_tree) = ''https://example.com/repo.git''"
  by (simp add: collect_fields collectRepoIdentity_def git_tree_def)

text \<open>
  Claim C7. When the source root is not under version control, \<open>collectRepoIdentity\<close>
  signals \<open>NotAVersionControlledTree\<close>, and the generator nevertheless returns success (0)
  and leaves at the output path a record whose repoHash and repoUrl are both the
  placeholder "unknown".
\<close>

theorem untracked_tree_gets_placeholders_and_success:
  assumes "version_control root = Untracked"
  shows "collectRepoIdentity root = Inl NotAVersionControlledTree
    \<and> snd (generator env root outputPath files) = 0
    \<and> map_option repoHash (fst (generator env root outputPath files) outputPath)
        = Some ''unknown''
    \<and> map_option repoUrl (fst (generator env root outputPath files) outputPath)
        = Some ''unknown''"
  using assms
  by (simp add: generator_def emit_def collect_fields collectRepoIdentity_def placeholder_def)

theorem untracked_tree_gets_placeholders_and_success_witness:
  "version_control untracked_tree = Untracked
   \<and> collectRepoIdentity untracked_tree = Inl NotAVersionControlledTree
   \<and> snd (generator sample_environment untracked_tree ''RepoInfo.cc'' Map.empty) = 0
   \<and> map_option repoHash
        (fst (generator sample_environment untracked_tree ''RepoInfo.cc'' Map.empty)
           ''RepoInfo.cc'') = Some ''unknown''
   \<and> map_option repoUrl
        (fst (generator sample_environment untracked_tree ''RepoInfo.cc'' Map.empty)
           ''RepoInfo.cc'') = Some ''unknown''"
proof -
  have untracked: "version_control untracked_tree = Untracked"
    by (simp add: untracked_tree_def)
  from untracked
    untracked_tree_gets_placeholders_and_success
      [OF untracked, of sample_environment "''RepoInfo.cc''" Map.empty]
  show ?thesis by (rule conjI)
qed

text \<open>
  Claim C6, as stated, fails: the second of two runs on the same host and tree reads the
  clock half a second after the first, within the same second, and both produce the
  buildTime \<^verbatim>\<open>2018-01-30 10:20:30 +0845\<close>.
\<close>

theorem runs_within_one_second_have_the_same_buildTime:
  "instant_key sample_clock < instant_key half_a_second_later
   \<and> same_offset (now sample_clock) (now half_a_second_later)
   \<and> buildTime (collect sample_environment sample_tree) = ''2018-01-30 10:20:30 +0845''
   \<and> buildTime (collect (sample_environment\<lparr>clock := half_a_second_later\<rparr>) sample_tree)
       = ''2018-01-30 10:20:30 +0845''"
  by (simp add: collect_fields instant_key_def date_time_key_def same_offset_def
      sample_environment_def sample_clock_def half_a_second_later_def format_eval)

text \<open>
  Claim C6, amended. Let a second run of the generator read the clock at a later instant
  than the first, on the same host, at the same offset and on the same source tree, with
  dates that fit the pattern. Then hostName, hostUser, hostOsNV, repoHash, repoUrl and
  modifyTime of the two records are identical; the buildTime of the second is never
  smaller than that of the first, in the order of texts; and it is strictly greater
  exactly when the second reading falls in a later second.
\<close>

theorem successive_runs_agree_and_buildTime_never_decreases:
  assumes fits: "fits_pattern (now (clock env))" "fits_pattern (now later)"
      and offset: "same_offset (now (clock env)) (now later)"
      and succession: "instant_key (clock env) < instant_key later"
  shows "hostName (collect (env\<lparr>clock := later\<rparr>) root) = hostName (collect env root)
    \<and> hostUser (collect (env\<lparr>clock := later\<rparr>) root) = hostUser (collect env root)
    \<and> hostOsNV (collect (env\<lparr>clock := later\<rparr>) root) = hostOsNV (collect env root)
    \<and> repoHash (collect (env\<lparr>clock := later\<rparr>) root) = repoHash (collect env root)
    \<and> repoUrl (collect (env\<lparr>clock := later\<rparr>) root) = repoUrl (collect env root)
    \<and> modifyTime (collect (env\<lparr>clock := later\<rparr>) root) = modifyTime (collect env root)
    \<and> buildTime (collect env root) \<le> buildTime (collect (env\<lparr>clock := later\<rparr>) root)
    \<and> (buildTime (collect env root) < buildTime (collect (env\<lparr>clock := later\<rparr>) root))
        = (date_time_key (now (clock env)) < date_time_key (now later))"
proof -
  have same:
    "hostName (collect (env\<lparr>clock := later\<rparr>) root) = hostName (collect env root)
     \<and> hostUser (collect (env\<lparr>clock := later\<rparr>) root) = hostUser (collect env root)
     \<and> hostOsNV (collect (env\<lparr>clock := later\<rparr>) root) = hostOsNV (collect env root)
     \<and> repoHash (collect (env\<lparr>clock := later\<rparr>) root) = repoHash (collect env root)
     \<and> repoUrl (collect (env\<lparr>clock := later\<rparr>) root) = repoUrl (collect env root)
     \<and> modifyTime (collect (env\<lparr>clock := later\<rparr>) root) = modifyTime (collect env root)"
    by (simp add: collect_fields collectHostInfo_def)
  have strict:
    "(buildTime (collect env root) < buildTime (collect (env\<lparr>clock := later\<rparr>) root))
       = (date_time_key (now (clock env)) < date_time_key (now later))"
    by (simp add: collect_fields format_timestamp_less [OF fits offset])
  have equal:
    "(buildTime (collect env root) = buildTime (collect (env\<lparr>clock := later\<rparr>) root))
       = (date_time_key (now (clock env)) = date_time_key (now later))"
    by (simp add: collect_fields format_timestamp_eq [OF fits offset])
  from date_time_key_of_instant_key [OF succession] strict equal
  have "buildTime (collect env root) \<le> buildTime (collect (env\<lparr>clock := later\<rparr>) root)"
    by (auto simp add: le_less)
  with same strict show ?thesis by blast
qed

theorem successive_runs_agree_and_buildTime_never_decreases_witness:
  "fits_pattern (now (clock sample_environment)) \<and> fits_pattern (now one_second_later)
   \<and> same_offset (now (clock sample_environment)) (now one_second_later)
   \<and> instant_key (clock sample_environment) < instant_key one_second_later
   \<and> repoHash (collect (sample_environment\<lparr>clock := one_second_later\<rparr>) sample_tree)
        = repoHash (collect sample_environment sample_tree)
   \<and> modifyTime (collect (sample_environment\<lparr>clock := one_second_later\<rparr>) sample_tree)
        = modifyTime (collect sample_environment sample_tree)
   \<and> buildTime (collect sample_environment sample_tree)
        < buildTime (collect (sample_environment\<lparr>clock := one_second_later\<rparr>) sample_tree)"
proof -
  have fits:
    "fits_pattern (now (clock sample_environment))" "fits_pattern (now one_second_later)"
    by (simp_all add: fits_pattern_def sample_environment_def sample_clock_def
        one_second_later_def)
  have offset: "same_offset (now (clock sample_environment)) (now one_second_later)"
    by (simp add: same_offset_def sample_environment_def sample_clock_def one_second_later_def)
  have succession: "instant_key (clock sample_environment) < instant_key one_second_later"
    by (simp add: instant_key_def date_time_key_def sample_environment_def sample_clock_def
        one_second_later_def)
  have seconds:
    "date_time_key (now (clock sample_environment)) < date_time_key (now one_second_later)"
    by (simp add: date_time_key_def sample_environment_def sample_clock_def
        one_second_later_def)
  from successive_runs_agree_and_buildTime_never_decreases
         [OF fits offset succession, of sample_tree]
       seconds fits offset succession
  show ?thesis by blast
qed

end
